theory Spec2Isabelle
  imports Main "HOL-Library.Word"
begin

section \<open>Python values, ASGI messages and exceptions\<close>

text \<open>
  The adapter of \<^verbatim>\<open>src/app/protocols/my_proto.py\<close> (class \<^verbatim>\<open>IudeenProto\<close>) is embedded
  as functions on a record of the instance's attributes. Every method takes the state
  and returns the exception it raised, if any, together with the state it left behind:
  a Python exception does not undo the assignments made before it.
\<close>

type_synonym octets = "8 word list"

text \<open>
  The values an ASGI message can carry. A \<^verbatim>\<open>str\<close> is a \<^typ>\<open>string\<close>; a dict is an
  association list with string keys.
\<close>

datatype pyval =
    PNone
  | PInt int
  | PStr string
  | PBytes octets
  | PByteArray octets
  | PMemoryview octets
  | PList "pyval list"
  | PDict "(string \<times> pyval) list"

type_synonym message = "(string \<times> pyval) list"

text \<open>\<^verbatim>\<open>d.get(k)\<close> and \<^verbatim>\<open>d.get(k, default)\<close>.\<close>

definition get :: "message \<Rightarrow> string \<Rightarrow> pyval" where
  "get d k = (case map_of d k of None \<Rightarrow> PNone | Some v \<Rightarrow> v)"

definition get_default :: "message \<Rightarrow> string \<Rightarrow> pyval \<Rightarrow> pyval" where
  "get_default d k dflt = (case map_of d k of None \<Rightarrow> dflt | Some v \<Rightarrow> v)"

text \<open>Truth value of an object, as \<^verbatim>\<open>x or ""\<close> tests it.\<close>

fun truthy :: "pyval \<Rightarrow> bool" where
  "truthy PNone = False"
| "truthy (PInt i) = (i \<noteq> 0)"
| "truthy (PStr s) = (s \<noteq> [])"
| "truthy (PBytes b) = (b \<noteq> [])"
| "truthy (PByteArray b) = (b \<noteq> [])"
| "truthy (PMemoryview b) = (b \<noteq> [])"
| "truthy (PList xs) = (xs \<noteq> [])"
| "truthy (PDict d) = (d \<noteq> [])"

text \<open>
  The four \<^verbatim>\<open>isinstance\<close> tests of \<^verbatim>\<open>send\<close>: against \<^verbatim>\<open>str\<close>, against
  \<^verbatim>\<open>(bytes, bytearray, memoryview)\<close>, against \<^verbatim>\<open>typing.Mapping\<close> and against
  \<^verbatim>\<open>typing.Iterable\<close>.
\<close>

fun isinstance_str :: "pyval \<Rightarrow> bool" where
  "isinstance_str (PStr s) = True"
| "isinstance_str v = False"

fun isinstance_bytes_like :: "pyval \<Rightarrow> bool" where
  "isinstance_bytes_like (PBytes b) = True"
| "isinstance_bytes_like (PByteArray b) = True"
| "isinstance_bytes_like (PMemoryview b) = True"
| "isinstance_bytes_like v = False"

fun isinstance_Mapping :: "pyval \<Rightarrow> bool" where
  "isinstance_Mapping (PDict d) = True"
| "isinstance_Mapping v = False"

fun isinstance_Iterable :: "pyval \<Rightarrow> bool" where
  "isinstance_Iterable PNone = False"
| "isinstance_Iterable (PInt i) = False"
| "isinstance_Iterable v = True"

fun str_of :: "pyval \<Rightarrow> string" where
  "str_of (PStr s) = s"
| "str_of v = []"

fun octets_of :: "pyval \<Rightarrow> octets" where
  "octets_of (PBytes b) = b"
| "octets_of (PByteArray b) = b"
| "octets_of (PMemoryview b) = b"
| "octets_of v = []"

text \<open>
  \<^verbatim>\<open>data.encode("utf-8")\<close> on a \<^typ>\<open>string\<close>, whose characters are the code points
  below 256: one byte below 128, two bytes from there on.
\<close>

definition encode_char :: "char \<Rightarrow> octets" where
  "encode_char c =
     (let n = (of_char c :: nat)
      in if n < 128 then [of_nat n] else [of_nat (192 + n div 64), of_nat (128 + n mod 64)])"

definition encode_utf8 :: "string \<Rightarrow> octets" where
  "encode_utf8 s = concat (map encode_char s)"

text \<open>
  The exceptions a method can leave with. The first six are raised by \<^verbatim>\<open>send\<close> itself:
  \<^item> \<open>Expected_accept_or_close t\<close>: RuntimeError "Expected ASGI message
    'websocket.accept' or 'websocket.close', but got '%s'." with the message type \<open>t\<close>;
  \<^item> \<open>Expected_send_or_close t\<close>: RuntimeError "Expected ASGI message 'websocket.send'
    or 'websocket.close', but got '%s'.";
  \<^item> \<open>Unexpected_after_close t\<close>: RuntimeError "Unexpected ASGI message '%s', after
    sending 'websocket.close'.";
  \<^item> \<open>Data_is_dict_like\<close>: TypeError "data is a dict-like object";
  \<^item> \<open>Fragmented_not_supported\<close>: NotImplementedError "Fragmented websocket messages
    are not supported.";
  \<^item> \<open>Data_must_be_bytes_str\<close>: TypeError "Websocket data must be bytes, str.".

  \<open>Write_argument_not_bytes\<close> is the TypeError of \<^verbatim>\<open>transport.write\<close> when it is given
  something that is not bytes-like. \<open>Key_error\<close> and \<open>Attribute_error\<close> come from the
  interpreter (a missing dict key, an attribute the object does not have); \<open>Raised_outside x\<close> is an exception \<open>x\<close> raised inside a
  part that the model takes as a parameter (the codec, the construction of the scope).
\<close>

datatype error =
    Expected_accept_or_close pyval
  | Expected_send_or_close pyval
  | Unexpected_after_close pyval
  | Data_is_dict_like
  | Fragmented_not_supported
  | Data_must_be_bytes_str
  | Write_argument_not_bytes
  | Key_error string
  | Attribute_error string
  | Raised_outside string

datatype exception_class =
  RuntimeError | TypeError | NotImplementedError | KeyError | AttributeError | OtherError

fun class_of :: "error \<Rightarrow> exception_class" where
  "class_of (Expected_accept_or_close t) = RuntimeError"
| "class_of (Expected_send_or_close t) = RuntimeError"
| "class_of (Unexpected_after_close t) = RuntimeError"
| "class_of Data_is_dict_like = TypeError"
| "class_of Fragmented_not_supported = NotImplementedError"
| "class_of Data_must_be_bytes_str = TypeError"
| "class_of Write_argument_not_bytes = TypeError"
| "class_of (Key_error k) = KeyError"
| "class_of (Attribute_error a) = AttributeError"
| "class_of (Raised_outside x) = OtherError"

section \<open>The collaborators: transport and frame codec\<close>

text \<open>
  The transport is the asyncio transport handed to \<^verbatim>\<open>connection_made\<close>. The model
  keeps the calls the adapter makes on it, in order, and the answer of
  \<^verbatim>\<open>is_closing()\<close>, which \<^verbatim>\<open>close()\<close> turns on. \<open>Write\<close> is
  \<^verbatim>\<open>transport.write(data)\<close> for one byte string.
\<close>

datatype tcall =
    Write octets
  | Close
  | Pause_reading
  | Resume_reading

record transport =
  calls :: "tcall list"
  closing :: bool

definition transport_write :: "octets \<Rightarrow> transport \<Rightarrow> transport" where
  "transport_write d t = t\<lparr>calls := calls t @ [Write d]\<rparr>"

text \<open>
  \<^verbatim>\<open>transport.write(self.conn.data_to_send())\<close> passes the codec's list whole. The
  transports of asyncio take \<^verbatim>\<open>bytes\<close>, \<^verbatim>\<open>bytearray\<close> and \<^verbatim>\<open>memoryview\<close> only: given
  a list, \<^verbatim>\<open>write\<close> raises a TypeError before it does anything, whatever the list holds.
\<close>

definition transport_write_list :: "octets list \<Rightarrow> transport \<Rightarrow> error + transport" where
  "transport_write_list ds t = Inl Write_argument_not_bytes"

definition transport_close :: "transport \<Rightarrow> transport" where
  "transport_close t = t\<lparr>calls := calls t @ [Close], closing := True\<rparr>"

definition transport_is_closing :: "transport \<Rightarrow> bool" where
  "transport_is_closing t = closing t"

definition transport_pause_reading :: "transport \<Rightarrow> transport" where
  "transport_pause_reading t = t\<lparr>calls := calls t @ [Pause_reading]\<rparr>"

definition transport_resume_reading :: "transport \<Rightarrow> transport" where
  "transport_resume_reading t = t\<lparr>calls := calls t @ [Resume_reading]\<rparr>"

text \<open>\<^verbatim>\<open>for data in chunks: self.transport.write(data)\<close>\<close>

fun transport_write_each :: "octets list \<Rightarrow> transport \<Rightarrow> transport" where
  "transport_write_each [] t = t"
| "transport_write_each (d # ds) t = transport_write_each ds (transport_write d t)"

text \<open>
  The codec is \<^verbatim>\<open>websockets.server.ServerConnection\<close>, a library outside the
  repository. Its opcodes and its connection states are the library's enumerations
  (\<^verbatim>\<open>websockets.frames\<close>, \<^verbatim>\<open>websockets.connection.State\<close>, an \<^verbatim>\<open>IntEnum\<close> numbered
  from 0 in the order below).
\<close>

datatype Opcode = OP_CONT | OP_TEXT | OP_BINARY | OP_CLOSE | OP_PING | OP_PONG

datatype State = CONNECTING | OPEN | CLOSING | CLOSED

fun State_value :: "State \<Rightarrow> int" where
  "State_value CONNECTING = 0"
| "State_value OPEN = 1"
| "State_value CLOSING = 2"
| "State_value CLOSED = 3"

text \<open>
  \<^verbatim>\<open>self.conn.state.CLOSING\<close>: looking a member's name up on a member of an
  enumeration gives that member of the class, whatever the member it is looked up on.
  Its truth value is that of its integer.
\<close>

definition attr_CLOSING :: "State \<Rightarrow> State" where
  "attr_CLOSING st = CLOSING"

definition State_truthy :: "State \<Rightarrow> bool" where
  "State_truthy st = (State_value st \<noteq> 0)"

text \<open>What the handlers read from the events the codec hands over.\<close>

record request =
  path :: string
  headers :: "(string \<times> string) list"

record response =
  status_code :: int
  body :: octets

text \<open>
  The objects given to \<^verbatim>\<open>self.conn.send\<close> by \<^verbatim>\<open>handle_no_connect\<close> and
  \<^verbatim>\<open>handle_ping\<close>: \<^verbatim>\<open>h11.Response(status_code, headers, reason)\<close>, \<^verbatim>\<open>h11.Data(data)\<close>,
  \<^verbatim>\<open>h11.EndOfMessage()\<close>, and the answer to a ping.
\<close>

datatype wire_event =
    H11_Response int "(string \<times> string) list" string
  | H11_Data octets
  | H11_EndOfMessage
  | Pong octets

text \<open>
  An event other than a request. \<^verbatim>\<open>opcode\<close> and \<^verbatim>\<open>data\<close> are what the codec's frames
  carry and what the loop of \<^verbatim>\<open>handle_events\<close> and its handlers read. \<^verbatim>\<open>reason\<close> and
  \<open>payload\<close>, from which \<^verbatim>\<open>event.response()\<close> builds the pong, are read only by
  \<^verbatim>\<open>handle_no_connect\<close> and \<^verbatim>\<open>handle_ping\<close>, which no path calls. The frames of the
  codec have no attribute \<^verbatim>\<open>message_finished\<close>, so the record has none.
\<close>

record frame =
  opcode :: Opcode
  data :: octets
  reason :: string
  payload :: octets

definition response_of :: "frame \<Rightarrow> wire_event" where
  "response_of ev = Pong (payload ev)"

datatype event = Request request | Frame frame

text \<open>
  The codec's methods are parameters of the model: each takes the codec's state and
  returns what the call returned, or the name of the exception it raised, and the
  codec's state after the call. Nothing is assumed about them.
\<close>

type_synonym ('c, 'a) operation = "'c \<Rightarrow> (string + 'a) \<times> 'c"

record 'c codec =
  conn_receive_data :: "octets \<Rightarrow> ('c, unit) operation"
  conn_events_received :: "('c, event list) operation"
  conn_accept :: "request \<Rightarrow> ('c, response) operation"
  conn_reject :: "int \<Rightarrow> string \<Rightarrow> ('c, response) operation"
  conn_send_response :: "response \<Rightarrow> ('c, unit) operation"
  conn_send_text :: "octets \<Rightarrow> ('c, unit) operation"
  conn_send_binary :: "octets \<Rightarrow> ('c, unit) operation"
  conn_send_close :: "pyval \<Rightarrow> pyval option \<Rightarrow> ('c, unit) operation"
  conn_data_to_send :: "('c, octets list) operation"
  conn_send :: "wire_event \<Rightarrow> ('c, octets) operation"
  conn_state :: "'c \<Rightarrow> State"

section \<open>The connection\<close>

text \<open>
  The attributes of an \<^verbatim>\<open>IudeenProto\<close> after \<^verbatim>\<open>connection_made\<close>. \<open>tasks\<close> is the
  server's shared task set; a task is named by the number the loop gave it, and
  \<open>created\<close> counts the tasks the loop has created. \<open>connections\<close> is the server's
  shared connection set, in which this connection goes by the name \<open>ident\<close>.
  \<open>bytes\<close> and \<open>text_buf\<close> are the buffers \<^verbatim>\<open>self.bytes\<close> and \<^verbatim>\<open>self.text\<close>.
  \<open>scope\<close> is absent until \<^verbatim>\<open>handle_connect\<close> assigns it. \<open>stdout\<close> keeps what
  \<^verbatim>\<open>print\<close> wrote. Logging is left out.
\<close>

record 'c proto =
  conn :: 'c
  transport :: transport
  queue :: "message list"
  handshake_complete :: bool
  close_sent :: bool
  read_paused :: bool
  writable :: bool
  bytes :: octets
  text_buf :: octets
  connect_event :: "request option"
  scope :: "message option"
  tasks :: "nat set"
  created :: nat
  connections :: "nat set"
  ident :: nat
  stdout :: "string list"

type_synonym 'c action = "'c proto \<Rightarrow> error option \<times> 'c proto"

text \<open>
  Calling a method of \<^verbatim>\<open>self.conn\<close>: the codec's state is replaced by the one the call
  left; an exception of the call leaves the method at once, a result goes on to the
  rest of the method.
\<close>

definition call :: "('c, 'a) operation \<Rightarrow> ('a \<Rightarrow> 'c action) \<Rightarrow> 'c action" where
  "call f k s =
     (case f (conn s) of
        (Inl x, c) \<Rightarrow> (Some (Raised_outside x), s\<lparr>conn := c\<rparr>)
      | (Inr r, c) \<Rightarrow> k r (s\<lparr>conn := c\<rparr>))"

definition put_nowait :: "message \<Rightarrow> 'c proto \<Rightarrow> 'c proto" where
  "put_nowait m s = s\<lparr>queue := queue s @ [m]\<rparr>"

definition disconnect_with :: "pyval \<Rightarrow> message" where
  "disconnect_with code = [(''type'', PStr ''websocket.disconnect''), (''code'', code)]"

section \<open>send\<close>

text \<open>
  \<^verbatim>\<open>send\<close> starts with \<^verbatim>\<open>await self.writable.wait()\<close>, which suspends the coroutine
  until the gate has been opened and touches nothing of the connection. \<open>send\<close> below
  is the rest of the coroutine, as a function of the state it finds when it goes on.
  Reading \<^verbatim>\<open>self.scope\<close> for the log line fails when the attribute was never
  assigned; once assigned, the scope has the two keys the log line reads.
\<close>

definition flush_each :: "'c codec \<Rightarrow> 'c action" where
  "flush_each cd =
     call (conn_data_to_send cd)
       (\<lambda>out s. (None, s\<lparr>transport := transport_write_each out (transport s)\<rparr>))"

definition flush_and_close :: "'c codec \<Rightarrow> 'c action" where
  "flush_and_close cd =
     call (conn_data_to_send cd)
       (\<lambda>out s.
          case transport_write_list out (transport s) of
            Inl e \<Rightarrow> (Some e, s)
          | Inr t \<Rightarrow> (None, s\<lparr>transport := transport_close t\<rparr>))"

definition send_accept :: "'c codec \<Rightarrow> 'c action" where
  "send_accept cd s =
     (case scope s of
        None \<Rightarrow> (Some (Attribute_error ''scope''), s)
      | Some sc \<Rightarrow> flush_each cd (s\<lparr>handshake_complete := True\<rparr>))"

definition send_reject :: "'c codec \<Rightarrow> 'c action" where
  "send_reject cd s =
     (let s1 = put_nowait (disconnect_with PNone) s
      in case scope s1 of
           None \<Rightarrow> (Some (Attribute_error ''scope''), s1)
         | Some sc \<Rightarrow>
             call (conn_reject cd 403 ''Reject'')
               (\<lambda>msg. call (conn_send_response cd msg) (\<lambda>u. flush_and_close cd))
               (s1\<lparr>handshake_complete := True, close_sent := True\<rparr>))"

definition send_data :: "'c codec \<Rightarrow> message \<Rightarrow> 'c action" where
  "send_data cd message s =
     (let bytes_data = get message ''bytes'';
          text_data = get message ''text'';
          data = (if bytes_data = PNone then text_data else bytes_data);
          flush = (\<lambda>u s'. if \<not> transport_is_closing (transport s') then flush_each cd s' else (None, s'))
      in if isinstance_str data then
           call (conn_send_text cd (encode_utf8 (str_of data))) flush s
         else if isinstance_bytes_like data then
           call (conn_send_binary cd (octets_of data)) flush s
         else if isinstance_Mapping (PDict message) then (Some Data_is_dict_like, s)
         else if isinstance_Iterable (PDict message) then (Some Fragmented_not_supported, s)
         else (Some Data_must_be_bytes_str, s))"

definition send_close :: "'c codec \<Rightarrow> message \<Rightarrow> 'c action" where
  "send_close cd message s =
     (let s1 = s\<lparr>close_sent := True\<rparr>;
          code = get_default message ''code'' (PInt 1000);
          r = get_default message ''reason'' (PStr []);
          reason = (if truthy r then r else PStr []);
          s2 = put_nowait (disconnect_with code) s1
      in call (conn_send_close cd code (Some reason))
           (\<lambda>u s3. if \<not> transport_is_closing (transport s3) then flush_and_close cd s3 else (None, s3))
           s2)"

definition send :: "'c codec \<Rightarrow> message \<Rightarrow> 'c action" where
  "send cd message s =
     (case map_of message ''type'' of
        None \<Rightarrow> (Some (Key_error ''type''), s)
      | Some message_type \<Rightarrow>
          if \<not> handshake_complete s then
            if message_type = PStr ''websocket.accept'' then send_accept cd s
            else if message_type = PStr ''websocket.close'' then send_reject cd s
            else (Some (Expected_accept_or_close message_type), s)
          else if \<not> close_sent s then
            if message_type = PStr ''websocket.send'' then send_data cd message s
            else if message_type = PStr ''websocket.close'' then send_close cd message s
            else (Some (Expected_send_or_close message_type), s)
          else (Some (Unexpected_after_close message_type), s))"

section \<open>The handlers of inbound events\<close>

definition then_do :: "'c action \<Rightarrow> 'c action \<Rightarrow> 'c action" where
  "then_do f g s = (case f s of (None, s') \<Rightarrow> g s' | (Some e, s') \<Rightarrow> (Some e, s'))"

text \<open>
  \<^verbatim>\<open>handle_connect\<close> builds the scope from the request and the connection's addresses
  (lines 135 to 157: lower-cased headers, the path split at its first question mark and
  unquoted by \<^verbatim>\<open>urllib\<close>, both halves encoded as ASCII, the subprotocol tokens). No
  property below looks into the scope, so its construction is the parameter
  \<open>build_scope\<close>, which returns the scope or the exception raised while building it.
  Then the codec accepts the request, the response is handed back to the codec, the
  connect event is queued and the application's task is created and registered.
\<close>

definition spawn :: "'c proto \<Rightarrow> 'c proto" where
  "spawn s = s\<lparr>created := Suc (created s), tasks := insert (created s) (tasks s)\<rparr>"

definition handle_connect ::
  "(request \<Rightarrow> string + message) \<Rightarrow> 'c codec \<Rightarrow> request \<Rightarrow> 'c action" where
  "handle_connect build_scope cd ev s =
     (let s1 = s\<lparr>connect_event := Some ev\<rparr>
      in case build_scope ev of
           Inl x \<Rightarrow> (Some (Raised_outside x), s1)
         | Inr sc \<Rightarrow>
             call (conn_accept cd ev)
               (\<lambda>response. call (conn_send_response cd response)
                  (\<lambda>u s3. (None, spawn (put_nowait [(''type'', PStr ''websocket.connect'')] s3))))
               (s1\<lparr>scope := Some sc\<rparr>))"

text \<open>
  \<^verbatim>\<open>handle_no_connect\<close>; the header names and values are byte strings in the source and
  written as text here.
\<close>

definition handle_no_connect :: "'c codec \<Rightarrow> frame \<Rightarrow> 'c action" where
  "handle_no_connect cd ev =
     call (conn_send cd
        (H11_Response 400
           [(''content-type'', ''text/plain; charset=utf-8''), (''connection'', ''close'')]
           ''Bad Request''))
       (\<lambda>out1. call (conn_send cd (H11_Data (encode_utf8 (reason ev))))
          (\<lambda>out2. call (conn_send cd H11_EndOfMessage)
             (\<lambda>out3 s. (None,
                s\<lparr>transport := transport_close (transport_write (out1 @ out2 @ out3) (transport s))\<rparr>))))"

definition handle_text :: "'c codec \<Rightarrow> frame \<Rightarrow> 'c action" where
  "handle_text cd ev s =
     (let s1 = s\<lparr>text_buf := data ev\<rparr>;
          s2 = put_nowait [(''type'', PStr ''websocket.receive''), (''text'', PBytes (text_buf s1))] s1
      in flush_each cd s2)"

text \<open>
  \<^verbatim>\<open>handle_bytes\<close> extends the buffer and then reads \<^verbatim>\<open>event.message_finished\<close>,
  which the frames of the codec do not have: the method leaves there with an
  AttributeError, before the lines that queue the message and pause reading.
\<close>

definition handle_bytes :: "frame \<Rightarrow> 'c action" where
  "handle_bytes ev s = (Some (Attribute_error ''message_finished''), s\<lparr>bytes := bytes s @ data ev\<rparr>)"

definition handle_close :: "'c codec \<Rightarrow> frame \<Rightarrow> 'c action" where
  "handle_close cd ev =
     then_do
       (\<lambda>s. if State_truthy (attr_CLOSING (conn_state cd (conn s)))
            then flush_each cd s else (None, s))
       (\<lambda>s. (None,
          (put_nowait (disconnect_with (PInt 1005)) s)\<lparr>transport := transport_close (transport s)\<rparr>))"

definition handle_ping :: "'c codec \<Rightarrow> frame \<Rightarrow> 'c action" where
  "handle_ping cd ev =
     call (conn_send cd (response_of ev))
       (\<lambda>out s. (None, s\<lparr>transport := transport_write out (transport s)\<rparr>))"

text \<open>
  The body of the loop of \<^verbatim>\<open>handle_events\<close>: a request goes to \<^verbatim>\<open>handle_connect\<close>,
  a text frame to \<^verbatim>\<open>handle_text\<close>, a close frame to \<^verbatim>\<open>handle_close\<close>; there is no
  other branch.
\<close>

definition handle_event ::
  "(request \<Rightarrow> string + message) \<Rightarrow> 'c codec \<Rightarrow> event \<Rightarrow> 'c action" where
  "handle_event build_scope cd ev s =
     (case ev of
        Request r \<Rightarrow> handle_connect build_scope cd r s
      | Frame f \<Rightarrow>
          if opcode f = OP_TEXT then handle_text cd f s
          else if opcode f = OP_CLOSE then handle_close cd f s
          else (None, s))"

fun handle_each ::
  "(request \<Rightarrow> string + message) \<Rightarrow> 'c codec \<Rightarrow> event list \<Rightarrow> 'c action" where
  "handle_each build_scope cd [] s = (None, s)"
| "handle_each build_scope cd (ev # evs) s =
     (case handle_event build_scope cd ev s of
        (None, s') \<Rightarrow> handle_each build_scope cd evs s'
      | (Some e, s') \<Rightarrow> (Some e, s'))"

definition handle_events :: "(request \<Rightarrow> string + message) \<Rightarrow> 'c codec \<Rightarrow> 'c action" where
  "handle_events build_scope cd =
     call (conn_events_received cd) (\<lambda>events_to_process. handle_each build_scope cd events_to_process)"

definition data_received ::
  "(request \<Rightarrow> string + message) \<Rightarrow> 'c codec \<Rightarrow> octets \<Rightarrow> 'c action" where
  "data_received build_scope cd d =
     call (conn_receive_data cd d) (\<lambda>u. handle_events build_scope cd)"

section \<open>Lifecycle, flow control and the application's task\<close>

definition connection_lost :: "bool \<Rightarrow> 'c action" where
  "connection_lost exc_given s =
     (let s1 = (if exc_given then put_nowait [(''type'', PStr ''websocket.disconnect'')] s else s)
      in if ident s1 \<notin> connections s1 then (Some (Key_error ''self''), s1)
         else
           (let s2 = s1\<lparr>connections := connections s1 - {ident s1}\<rparr>
            in (None, if \<not> exc_given then s2\<lparr>transport := transport_close (transport s2)\<rparr> else s2)))"

definition pause_writing :: "'c proto \<Rightarrow> 'c proto" where
  "pause_writing s = s\<lparr>writable := False\<rparr>"

definition resume_writing :: "'c proto \<Rightarrow> 'c proto" where
  "resume_writing s = s\<lparr>writable := True\<rparr>"

text \<open>\<^verbatim>\<open>self.conn.send_close(code=1012)\<close> gives no reason.\<close>

definition shutdown :: "'c codec \<Rightarrow> 'c action" where
  "shutdown cd s =
     call (conn_send_close cd (PInt 1012) None) (\<lambda>u. flush_and_close cd)
       (put_nowait (disconnect_with (PInt 1012)) s)"

definition on_task_complete :: "nat \<Rightarrow> 'c proto \<Rightarrow> 'c proto" where
  "on_task_complete task s = s\<lparr>tasks := tasks s - {task}\<rparr>"

definition send_500_response :: "'c proto \<Rightarrow> 'c proto" where
  "send_500_response s = s\<lparr>stdout := stdout s @ [''500 Error'']\<rparr>"

text \<open>
  \<^verbatim>\<open>run_asgi\<close> awaits the application, whose calls of \<^verbatim>\<open>receive\<close> and \<^verbatim>\<open>send\<close> are
  steps of their own. \<open>run_asgi\<close> below is what follows the \<^verbatim>\<open>await\<close>: it is given how
  the application ended, with an exception or with the value it returned, and the state
  at that moment.
\<close>

datatype app_outcome = App_raised | App_returned pyval

definition run_asgi :: "app_outcome \<Rightarrow> 'c proto \<Rightarrow> 'c proto" where
  "run_asgi outcome s =
     (case outcome of
        App_raised \<Rightarrow>
          (let s1 = (if \<not> handshake_complete s then send_500_response s else s)
           in s1\<lparr>transport := transport_close (transport s1)\<rparr>)
      | App_returned result \<Rightarrow>
          if \<not> handshake_complete s then
            (let s1 = send_500_response s in s1\<lparr>transport := transport_close (transport s1)\<rparr>)
          else if result \<noteq> PNone then s\<lparr>transport := transport_close (transport s)\<rparr>
          else s)"

text \<open>
  \<^verbatim>\<open>receive\<close> waits at \<^verbatim>\<open>await self.queue.get()\<close> while the queue is empty: there is no
  result then.
\<close>

definition receive :: "'c proto \<Rightarrow> (message \<times> 'c proto) option" where
  "receive s =
     (case queue s of
        [] \<Rightarrow> None
      | m # q \<Rightarrow>
          (let s1 = s\<lparr>queue := q\<rparr>
           in Some (m,
                if read_paused s1 \<and> queue s1 = []
                then s1\<lparr>read_paused := False, transport := transport_resume_reading (transport s1)\<rparr>
                else s1)))"

section \<open>The states a connection can be in\<close>

text \<open>
  The state after \<^verbatim>\<open>__init__\<close> and \<^verbatim>\<open>connection_made\<close>: a fresh codec, a transport
  nothing has been asked of, an empty queue, both flags down, the gate open, and the
  connection registered in the server's set.
\<close>

definition connection_made :: "'c \<Rightarrow> nat set \<Rightarrow> nat \<Rightarrow> nat set \<Rightarrow> nat \<Rightarrow> 'c proto" where
  "connection_made c ts n cs i =
     \<lparr>conn = c, transport = \<lparr>calls = [], closing = False\<rparr>, queue = [],
      handshake_complete = False, close_sent = False, read_paused = False, writable = True,
      bytes = [], text_buf = [], connect_event = None, scope = None,
      tasks = ts, created = n, connections = insert i cs, ident = i, stdout = []\<rparr>"

text \<open>
  What the rest of the server can change between two steps of this connection: the
  shared sets, the loop's task counter, and whether the transport is closing.
\<close>

definition elsewhere :: "nat set \<Rightarrow> nat \<Rightarrow> nat set \<Rightarrow> bool \<Rightarrow> 'c proto \<Rightarrow> 'c proto" where
  "elsewhere ts n cs b s =
     s\<lparr>tasks := ts, created := n, connections := cs, transport := (transport s)\<lparr>closing := b\<rparr>\<rparr>"

text \<open>
  The reachable states: the callbacks of the transport and of the loop, the calls of
  the application and of the server, in any order and with any arguments.
\<close>

inductive reachable :: "(request \<Rightarrow> string + message) \<Rightarrow> 'c codec \<Rightarrow> 'c proto \<Rightarrow> bool"
  for build_scope :: "request \<Rightarrow> string + message" and cd :: "'c codec" where
  made: "reachable build_scope cd (connection_made c ts n cs i)"
| data: "reachable build_scope cd s \<Longrightarrow> reachable build_scope cd (snd (data_received build_scope cd d s))"
| lost: "reachable build_scope cd s \<Longrightarrow> reachable build_scope cd (snd (connection_lost exc s))"
| paused: "reachable build_scope cd s \<Longrightarrow> reachable build_scope cd (pause_writing s)"
| resumed: "reachable build_scope cd s \<Longrightarrow> reachable build_scope cd (resume_writing s)"
| stopped: "reachable build_scope cd s \<Longrightarrow> reachable build_scope cd (snd (shutdown cd s))"
| sent: "reachable build_scope cd s \<Longrightarrow> reachable build_scope cd (snd (send cd m s))"
| taken: "reachable build_scope cd s \<Longrightarrow> receive s = Some (m, s') \<Longrightarrow> reachable build_scope cd s'"
| finished: "reachable build_scope cd s \<Longrightarrow> reachable build_scope cd (run_asgi outcome s)"
| completed: "reachable build_scope cd s \<Longrightarrow> reachable build_scope cd (on_task_complete task s)"
| outside: "reachable build_scope cd s \<Longrightarrow> reachable build_scope cd (elsewhere ts n cs b s)"

section \<open>A small codec to run the model on\<close>

text \<open>
  The theorems below hold for every codec. To evaluate the model on concrete inputs a
  codec is needed; this one keeps its state, its pending output and its pending events,
  and frames a message as one tag byte followed by the payload. Like the library it
  answers a ping by queueing a pong in its output, answers a close frame by queueing
  its own and leaving the open state, and refuses to send once it is no longer open.
\<close>

record sim =
  sim_state :: State
  sim_out :: "octets list"
  sim_events :: "event list"

definition sim_frame :: "Opcode \<Rightarrow> octets \<Rightarrow> frame" where
  "sim_frame oc d = \<lparr>opcode = oc, data = d, reason = [], payload = d\<rparr>"

definition sim_opcode :: "8 word \<Rightarrow> Opcode" where
  "sim_opcode b =
     (if b = 1 then OP_TEXT else if b = 2 then OP_BINARY else if b = 8 then OP_CLOSE
      else if b = 9 then OP_PING else if b = 10 then OP_PONG else OP_CONT)"

definition sim_receive_data :: "octets \<Rightarrow> (sim, unit) operation" where
  "sim_receive_data d c =
     (if sim_state c = CONNECTING then
        (Inr (), c\<lparr>sim_events := sim_events c @ [Request \<lparr>path = ''/'', headers = []\<rparr>]\<rparr>)
      else
        (case d of
           [] \<Rightarrow> (Inr (), c)
         | b # rest \<Rightarrow>
             (Inr (),
              c\<lparr>sim_events := sim_events c @ [Frame (sim_frame (sim_opcode b) rest)],
                sim_out := (if sim_opcode b = OP_PING then sim_out c @ [10 # rest]
                            else if sim_opcode b = OP_CLOSE then sim_out c @ [[8]]
                            else sim_out c),
                sim_state := (if sim_opcode b = OP_CLOSE then CLOSING else sim_state c)\<rparr>)))"

definition sim_send_frame :: "8 word \<Rightarrow> octets \<Rightarrow> (sim, unit) operation" where
  "sim_send_frame tag d c =
     (if sim_state c = OPEN then (Inr (), c\<lparr>sim_out := sim_out c @ [tag # d]\<rparr>)
      else (Inl ''InvalidState'', c))"

definition sim_send_close :: "pyval \<Rightarrow> pyval option \<Rightarrow> (sim, unit) operation" where
  "sim_send_close code rsn c =
     (if sim_state c = OPEN then (Inr (), c\<lparr>sim_out := sim_out c @ [[8]], sim_state := CLOSING\<rparr>)
      else (Inl ''InvalidState'', c))"

definition sim_send_response :: "response \<Rightarrow> (sim, unit) operation" where
  "sim_send_response r c =
     (Inr (),
      c\<lparr>sim_out := sim_out c @ [body r],
        sim_state := (if status_code r = 101 then OPEN else sim_state c)\<rparr>)"

fun sim_wire :: "wire_event \<Rightarrow> octets" where
  "sim_wire (H11_Response st hs rsn) = [of_nat (nat st div 100), of_nat (nat st mod 100)]"
| "sim_wire (H11_Data d) = d"
| "sim_wire H11_EndOfMessage = []"
| "sim_wire (Pong d) = 10 # d"

definition sim_codec :: "sim codec" where
  "sim_codec =
     \<lparr>conn_receive_data = sim_receive_data,
      conn_events_received = (\<lambda>c. (Inr (sim_events c), c\<lparr>sim_events := []\<rparr>)),
      conn_accept = (\<lambda>r c. (Inr \<lparr>status_code = 101, body = [101]\<rparr>, c)),
      conn_reject = (\<lambda>st txt c. (Inr \<lparr>status_code = st, body = encode_utf8 txt\<rparr>, c)),
      conn_send_response = sim_send_response,
      conn_send_text = sim_send_frame 1,
      conn_send_binary = sim_send_frame 2,
      conn_send_close = sim_send_close,
      conn_data_to_send = (\<lambda>c. (Inr (sim_out c), c\<lparr>sim_out := []\<rparr>)),
      conn_send = (\<lambda>w c. (Inr (sim_wire w), c)),
      conn_state = sim_state\<rparr>"

definition sim_scope :: "request \<Rightarrow> string + message" where
  "sim_scope r = Inr [(''type'', PStr ''websocket''), (''path'', PStr (path r))]"

text \<open>A fresh connection on that codec, and the same connection once it is open.\<close>

definition fresh :: "sim proto" where
  "fresh = connection_made \<lparr>sim_state = CONNECTING, sim_out = [], sim_events = []\<rparr> {} 0 {} 0"

definition opened :: "sim proto" where
  "opened =
     fresh\<lparr>conn := \<lparr>sim_state = OPEN, sim_out = [], sim_events = []\<rparr>,
           handshake_complete := True, scope := Some [(''type'', PStr ''websocket'')]\<rparr>"

definition rejected :: "sim proto" where
  "rejected =
     snd (send sim_codec [(''type'', PStr ''websocket.close'')]
            (snd (data_received sim_scope sim_codec [] fresh)))"

text \<open>The two flags \<^verbatim>\<open>send\<close> decides on, and how they are related.\<close>

definition flags :: "'c proto \<Rightarrow> bool \<times> bool" where
  "flags s = (handshake_complete s, close_sent s)"

definition flags_ok :: "'c proto \<Rightarrow> bool" where
  "flags_ok s \<longleftrightarrow> (close_sent s \<longrightarrow> handshake_complete s)"

text \<open>
  The two exceptions of \<^verbatim>\<open>send\<close> that come after the test of the message against
  \<^verbatim>\<open>Mapping\<close>, and the payload \<^verbatim>\<open>send\<close> picks: \<^verbatim>\<open>bytes\<close> unless it is
  \<^verbatim>\<open>None\<close>, else \<^verbatim>\<open>text\<close>.
\<close>

definition shape_error :: "error \<Rightarrow> bool" where
  "shape_error e \<longleftrightarrow> e = Fragmented_not_supported \<or> e = Data_must_be_bytes_str"

definition payload_of :: "message \<Rightarrow> pyval" where
  "payload_of m = (if get m ''bytes'' = PNone then get m ''text'' else get m ''bytes'')"

text \<open>
  Three more states of the small codec's connection: open with a transport that is
  already closing; in the closing handshake with the echo of the close frame pending;
  and still connecting, with the handshake response pending.
\<close>

definition closing_down :: "sim proto" where
  "closing_down = opened\<lparr>transport := \<lparr>calls = [], closing = True\<rparr>\<rparr>"

definition closing_shake :: "sim proto" where
  "closing_shake = opened\<lparr>conn := \<lparr>sim_state = CLOSING, sim_out = [[8, 3, 232]], sim_events = []\<rparr>\<rparr>"

definition still_connecting :: "sim proto" where
  "still_connecting = fresh\<lparr>conn := \<lparr>sim_state = CONNECTING, sim_out = [[101]], sim_events = []\<rparr>\<rparr>"

text \<open>
  A run of the small codec's connection from the start: the upgrade request arrives,
  the application accepts, and then the peer's close frame arrives.
\<close>

definition upgraded :: "sim proto" where
  "upgraded = snd (data_received sim_scope sim_codec [71, 69, 84] fresh)"

definition accepted :: "sim proto" where
  "accepted = snd (send sim_codec [(''type'', PStr ''websocket.accept'')] upgraded)"

definition closed_by_peer :: "sim proto" where
  "closed_by_peer = snd (data_received sim_scope sim_codec [8] accepted)"

text \<open>How often the transport has been asked to close.\<close>

definition closes :: "transport \<Rightarrow> nat" where
  "closes t = length (filter (\<lambda>c. c = Close) (calls t))"

section \<open>Unfolding the model\<close>

lemmas sim_defs = sim_codec_def sim_receive_data_def sim_send_frame_def sim_send_close_def
  sim_send_response_def sim_scope_def sim_frame_def sim_opcode_def

lemmas state_defs = fresh_def opened_def connection_made_def

lemmas op_defs = call_def then_do_def put_nowait_def disconnect_with_def flush_each_def
  flush_and_close_def get_def get_default_def
  transport_write_def transport_write_list_def transport_close_def transport_is_closing_def
  transport_pause_reading_def transport_resume_reading_def

lemma write_each_calls: "calls (transport_write_each ds t) = calls t @ map Write ds"
  by (induction ds arbitrary: t) (simp_all add: transport_write_def)

lemma write_each_closing: "closing (transport_write_each ds t) = closing t"
  by (induction ds arbitrary: t) (simp_all add: transport_write_def)

section \<open>Only send moves the flags\<close>

text \<open>
  A codec call followed by a continuation that keeps the flags keeps them: the call
  itself only replaces the codec's state.
\<close>

lemma call_flags:
  assumes "\<And>r s'. flags (snd (k r s')) = flags s'"
  shows "flags (snd (call f k s)) = flags s"
proof (cases "f (conn s)")
  case (Pair r c)
  show ?thesis
  proof (cases r)
    case (Inl x)
    with Pair show ?thesis by (simp add: call_def flags_def)
  next
    case (Inr y)
    with Pair have "call f k s = k y (s\<lparr>conn := c\<rparr>)" by (simp add: call_def)
    with assms [of y "s\<lparr>conn := c\<rparr>"] show ?thesis by (simp add: flags_def)
  qed
qed

lemma flush_each_flags: "flags (snd (flush_each cd s)) = flags s"
  unfolding flush_each_def by (rule call_flags) (simp add: flags_def)

lemma flush_and_close_flags: "flags (snd (flush_and_close cd s)) = flags s"
  unfolding flush_and_close_def
  by (rule call_flags) (simp add: flags_def transport_write_list_def)

lemma handle_connect_flags: "flags (snd (handle_connect bs cd r s)) = flags s"
proof (cases "bs r")
  case (Inl x)
  then show ?thesis by (simp add: handle_connect_def flags_def)
next
  case (Inr sc)
  have "flags (snd (call (conn_accept cd r)
          (\<lambda>response. call (conn_send_response cd response)
             (\<lambda>u s3. (None, spawn (put_nowait [(''type'', PStr ''websocket.connect'')] s3))))
          (s\<lparr>connect_event := Some r, scope := Some sc\<rparr>)))
        = flags (s\<lparr>connect_event := Some r, scope := Some sc\<rparr>)"
    by (intro call_flags) (simp add: flags_def spawn_def put_nowait_def)
  with Inr show ?thesis by (simp add: handle_connect_def flags_def)
qed

lemma handle_text_flags: "flags (snd (handle_text cd f s)) = flags s"
  by (simp add: handle_text_def flush_each_flags) (simp add: flags_def put_nowait_def)

lemma handle_close_flags: "flags (snd (handle_close cd f s)) = flags s"
proof -
  obtain e s' where r: "flush_each cd s = (e, s')" by (cases "flush_each cd s")
  from flush_each_flags [of cd s] r have "flags s' = flags s" by simp
  with r show ?thesis
    by (cases e) (simp_all add: handle_close_def then_do_def flags_def put_nowait_def)
qed

lemma handle_event_flags: "flags (snd (handle_event bs cd ev s)) = flags s"
  by (cases ev)
     (simp_all add: handle_event_def handle_connect_flags handle_text_flags handle_close_flags)

lemma handle_each_flags: "flags (snd (handle_each bs cd evs s)) = flags s"
proof (induction evs arbitrary: s)
  case Nil
  show ?case by simp
next
  case (Cons ev evs)
  obtain e s' where r: "handle_event bs cd ev s = (e, s')" by (cases "handle_event bs cd ev s")
  from handle_event_flags [of bs cd ev s] r have "flags s' = flags s" by simp
  with r Cons.IH [of s'] show ?case by (cases e) simp_all
qed

lemma data_received_flags: "flags (snd (data_received bs cd d s)) = flags s"
  unfolding data_received_def handle_events_def
  by (intro call_flags) (rule handle_each_flags)

lemma shutdown_flags: "flags (snd (shutdown cd s)) = flags s"
proof -
  have "flags (snd (shutdown cd s)) = flags (put_nowait (disconnect_with (PInt 1012)) s)"
    unfolding shutdown_def by (intro call_flags) (rule flush_and_close_flags)
  then show ?thesis by (simp add: flags_def put_nowait_def)
qed

lemma receive_flags: "receive s = Some (m, s') \<Longrightarrow> flags s' = flags s"
  by (auto simp: receive_def flags_def Let_def split: list.splits if_splits)

lemma flags_ok_flags: "flags s' = flags s \<Longrightarrow> flags_ok s \<Longrightarrow> flags_ok s'"
  by (simp add: flags_def flags_ok_def)

text \<open>
  \<^verbatim>\<open>send\<close> raises \<open>close_sent\<close> only together with \<open>handshake_complete\<close> (rejecting
  the handshake) or when \<open>handshake_complete\<close> is up already (closing an open connection).
\<close>

lemma send_accept_flags_ok: "flags_ok s \<Longrightarrow> flags_ok (snd (send_accept cd s))"
proof (cases "scope s")
  case None
  then show "flags_ok s \<Longrightarrow> ?thesis" by (simp add: send_accept_def)
next
  case (Some sc)
  have "flags_ok (snd (flush_each cd (s\<lparr>handshake_complete := True\<rparr>)))"
    using flush_each_flags [of cd "s\<lparr>handshake_complete := True\<rparr>"]
    by (simp add: flags_def flags_ok_def)
  with Some show ?thesis by (simp add: send_accept_def)
qed

lemma send_reject_flags_ok: "flags_ok s \<Longrightarrow> flags_ok (snd (send_reject cd s))"
proof (cases "scope s")
  case None
  then show "flags_ok s \<Longrightarrow> ?thesis"
    by (simp add: send_reject_def put_nowait_def flags_ok_def)
next
  case (Some sc)
  let ?s = "(put_nowait (disconnect_with PNone) s)\<lparr>handshake_complete := True, close_sent := True\<rparr>"
  have "flags (snd (call (conn_reject cd 403 ''Reject'')
           (\<lambda>msg. call (conn_send_response cd msg) (\<lambda>u. flush_and_close cd)) ?s)) = flags ?s"
    by (intro call_flags) (rule flush_and_close_flags)
  then have "flags_ok (snd (call (conn_reject cd 403 ''Reject'')
           (\<lambda>msg. call (conn_send_response cd msg) (\<lambda>u. flush_and_close cd)) ?s))"
    by (simp add: flags_def flags_ok_def)
  with Some show ?thesis by (simp add: send_reject_def put_nowait_def)
qed

lemma send_data_flags: "flags (snd (send_data cd m s)) = flags s"
proof -
  have k: "flags (snd ((if \<not> transport_is_closing (transport s') then flush_each cd s' else (None, s')))) = flags s'"
    for s' :: "'a proto"
    by (simp add: flush_each_flags)
  have "flags (snd (call f (\<lambda>u s'. if \<not> transport_is_closing (transport s') then flush_each cd s' else (None, s')) s)) = flags s"
    for f :: "('a, unit) operation"
    by (rule call_flags) (rule k)
  then show ?thesis by (simp add: send_data_def Let_def)
qed

lemma send_close_flags:
  "flags (snd (send_close cd m s)) = (handshake_complete s, True)"
proof -
  have k: "flags (snd ((if \<not> transport_is_closing (transport s') then flush_and_close cd s' else (None, s')))) = flags s'"
    for s' :: "'a proto"
    by (simp add: flush_and_close_flags)
  have "flags (snd (call f (\<lambda>u s'. if \<not> transport_is_closing (transport s') then flush_and_close cd s' else (None, s')) s0)) = flags s0"
    for f :: "('a, unit) operation" and s0
    by (rule call_flags) (rule k)
  then show ?thesis by (simp add: send_close_def Let_def) (simp add: flags_def put_nowait_def)
qed

lemma send_data_flags_ok: "flags_ok s \<Longrightarrow> flags_ok (snd (send_data cd m s))"
  using send_data_flags by (rule flags_ok_flags)

lemma send_close_flags_ok: "handshake_complete s \<Longrightarrow> flags_ok (snd (send_close cd m s))"
  using send_close_flags [of cd m s] by (simp add: flags_def flags_ok_def)

lemma send_flags_ok:
  assumes "flags_ok s"
  shows "flags_ok (snd (send cd m s))"
proof (cases "map_of m ''type''")
  case None
  with assms show ?thesis by (simp add: send_def)
next
  case (Some t)
  with assms show ?thesis
    by (simp add: send_def send_accept_flags_ok send_reject_flags_ok send_data_flags_ok
        send_close_flags_ok)
qed

lemma reachable_flags_ok: "reachable bs cd s \<Longrightarrow> flags_ok s"
proof (induction rule: reachable.induct)
  case (made c ts n cs i)
  show ?case by (simp add: flags_ok_def connection_made_def)
next
  case (data s d)
  from data_received_flags data.IH show ?case by (rule flags_ok_flags)
next
  case (lost s exc)
  then show ?case
    by (simp add: flags_ok_def connection_lost_def put_nowait_def Let_def)
next
  case (paused s)
  then show ?case by (simp add: flags_ok_def pause_writing_def)
next
  case (resumed s)
  then show ?case by (simp add: flags_ok_def resume_writing_def)
next
  case (stopped s)
  from shutdown_flags stopped.IH show ?case by (rule flags_ok_flags)
next
  case (sent s m)
  then show ?case by (simp add: send_flags_ok)
next
  case (taken s m s')
  then show ?case using receive_flags flags_ok_flags by blast
next
  case (finished s outcome)
  then show ?case
    by (cases outcome) (auto simp: flags_ok_def run_asgi_def send_500_response_def Let_def)
next
  case (completed s task)
  then show ?case by (simp add: flags_ok_def on_task_complete_def)
next
  case (outside s ts n cs b)
  then show ?case by (simp add: flags_ok_def elsewhere_def)
qed

lemma rejected_eval: "close_sent rejected \<and> handshake_complete rejected"
  by (simp add: rejected_def send_def send_reject_def data_received_def handle_events_def
      handle_event_def handle_connect_def spawn_def Let_def sim_defs state_defs op_defs)

section \<open>send in a state that does not allow the message\<close>

text \<open>
  C1. In every state a connection can reach, a call of \<^verbatim>\<open>send\<close> with a message that has
  a type raises a RuntimeError and leaves the whole state as it was (so nothing is
  queued and nothing is written) in two cases: the handshake is not complete and the
  type is neither \<^verbatim>\<open>websocket.accept\<close> nor \<^verbatim>\<open>websocket.close\<close>; or \<open>close_sent\<close> is
  set, whatever the type, and then the error is the one for a message after close.
\<close>

theorem send_in_wrong_state_raises:
  assumes "reachable build_scope cd s" and "map_of message ''type'' = Some t"
  shows "(\<not> handshake_complete s \<and> t \<noteq> PStr ''websocket.accept'' \<and> t \<noteq> PStr ''websocket.close''
            \<longrightarrow> send cd message s = (Some (Expected_accept_or_close t), s)
              \<and> class_of (Expected_accept_or_close t) = RuntimeError)
       \<and> (close_sent s
            \<longrightarrow> send cd message s = (Some (Unexpected_after_close t), s)
              \<and> class_of (Unexpected_after_close t) = RuntimeError)"
proof -
  from assms(1) have "flags_ok s" by (rule reachable_flags_ok)
  with assms(2) show ?thesis by (simp add: send_def flags_ok_def)
qed

theorem send_in_wrong_state_raises_witness:
  "send sim_codec [(''type'', PStr ''websocket.send'')] fresh
     = (Some (Expected_accept_or_close (PStr ''websocket.send'')), fresh)
   \<and> send sim_codec [(''type'', PStr ''websocket.accept'')] rejected
     = (Some (Unexpected_after_close (PStr ''websocket.accept'')), rejected)"
proof -
  have r1: "reachable sim_scope sim_codec fresh"
    unfolding fresh_def by (rule reachable.made)
  have r2: "reachable sim_scope sim_codec rejected"
    unfolding rejected_def by (intro reachable.sent reachable.data r1)
  have f: "\<not> handshake_complete fresh" by (simp add: state_defs)
  from send_in_wrong_state_raises [OF r1, of "[(''type'', PStr ''websocket.send'')]" "PStr ''websocket.send''"]
    send_in_wrong_state_raises [OF r2, of "[(''type'', PStr ''websocket.accept'')]" "PStr ''websocket.accept''"]
    f rejected_eval
  show ?thesis by simp
qed

section \<open>send with no payload\<close>

text \<open>
  C6. On an open connection (handshake complete, close not sent) a call of \<^verbatim>\<open>send\<close>
  with type \<^verbatim>\<open>websocket.send\<close> in which neither \<^verbatim>\<open>text\<close> nor \<^verbatim>\<open>bytes\<close> is set (the
  key is missing or holds \<^verbatim>\<open>None\<close>) raises a TypeError and leaves the state as it
  was: nothing is written to the transport.
\<close>

theorem send_without_payload:
  assumes "handshake_complete s" and "\<not> close_sent s"
    and "map_of message ''type'' = Some (PStr ''websocket.send'')"
    and "get message ''text'' = PNone" and "get message ''bytes'' = PNone"
  shows "fst (send cd message s) = Some Data_is_dict_like
       \<and> class_of Data_is_dict_like = TypeError
       \<and> snd (send cd message s) = s"
  using assms by (simp add: send_def send_data_def)

theorem send_without_payload_witness:
  "fst (send sim_codec [(''type'', PStr ''websocket.send'')] opened) = Some Data_is_dict_like
   \<and> class_of Data_is_dict_like = TypeError
   \<and> snd (send sim_codec [(''type'', PStr ''websocket.send'')] opened) = opened"
  using send_without_payload [of opened "[(''type'', PStr ''websocket.send'')]" sim_codec]
  by (simp add: opened_def fresh_def connection_made_def get_def)

section \<open>The shape checks of send\<close>

lemma call_keeps:
  assumes "\<And>s' c. g (s'\<lparr>conn := c\<rparr>) = g s'" and "\<And>r s'. g (snd (k r s')) = g s'"
  shows "g (snd (call f k s)) = g s"
proof (cases "f (conn s)")
  case (Pair r c)
  show ?thesis
  proof (cases r)
    case (Inl x)
    with Pair show ?thesis by (simp add: call_def assms(1))
  next
    case (Inr y)
    with Pair have "call f k s = k y (s\<lparr>conn := c\<rparr>)" by (simp add: call_def)
    with assms(2) [of y "s\<lparr>conn := c\<rparr>"] show ?thesis by (simp add: assms(1))
  qed
qed

lemma call_error:
  assumes "\<And>r s'. fst (k r s') \<noteq> Some e" and "\<And>x. e \<noteq> Raised_outside x"
  shows "fst (call f k s) \<noteq> Some e"
proof (cases "f (conn s)")
  case (Pair r c)
  show ?thesis
  proof (cases r)
    case (Inl x)
    with Pair assms(2) [of x] show ?thesis by (auto simp: call_def)
  next
    case (Inr y)
    with Pair assms(1) [of y "s\<lparr>conn := c\<rparr>"] show ?thesis by (simp add: call_def)
  qed
qed

lemma shape_error_outside: "shape_error e \<Longrightarrow> e \<noteq> Raised_outside x"
  by (auto simp: shape_error_def)

lemma flush_each_error: "shape_error e \<Longrightarrow> fst (flush_each cd s) \<noteq> Some e"
  unfolding flush_each_def by (rule call_error) (simp_all add: shape_error_outside)

lemma flush_and_close_error: "shape_error e \<Longrightarrow> fst (flush_and_close cd s) \<noteq> Some e"
  unfolding flush_and_close_def
  by (rule call_error) (auto simp: shape_error_def transport_write_list_def)

lemma send_accept_error: "shape_error e \<Longrightarrow> fst (send_accept cd s) \<noteq> Some e"
  by (cases "scope s") (auto simp: send_accept_def flush_each_error shape_error_def)

lemma send_reject_error:
  assumes "shape_error e"
  shows "fst (send_reject cd s) \<noteq> Some e"
proof (cases "scope s")
  case None
  with assms show ?thesis by (auto simp: send_reject_def put_nowait_def shape_error_def)
next
  case (Some sc)
  have "fst (call (conn_reject cd 403 ''Reject'')
           (\<lambda>msg. call (conn_send_response cd msg) (\<lambda>u. flush_and_close cd)) s0) \<noteq> Some e" for s0
    by (intro call_error flush_and_close_error assms shape_error_outside)
  with Some show ?thesis by (simp add: send_reject_def put_nowait_def)
qed

lemma send_data_error:
  assumes "shape_error e"
  shows "fst (send_data cd m s) \<noteq> Some e"
proof -
  have k: "fst (if \<not> transport_is_closing (transport s') then flush_each cd s' else (None, s')) \<noteq> Some e"
    for s' :: "'a proto"
    by (simp add: flush_each_error assms)
  have "fst (call f (\<lambda>u s'. if \<not> transport_is_closing (transport s') then flush_each cd s' else (None, s')) s) \<noteq> Some e"
    for f :: "('a, unit) operation"
    by (intro call_error k shape_error_outside assms)
  with assms show ?thesis by (auto simp: send_data_def Let_def shape_error_def)
qed

lemma send_close_error:
  assumes "shape_error e"
  shows "fst (send_close cd m s) \<noteq> Some e"
proof -
  have k: "fst (if \<not> transport_is_closing (transport s') then flush_and_close cd s' else (None, s')) \<noteq> Some e"
    for s' :: "'a proto"
    by (simp add: flush_and_close_error assms)
  have "fst (call f (\<lambda>u s'. if \<not> transport_is_closing (transport s') then flush_and_close cd s' else (None, s')) s0) \<noteq> Some e"
    for f :: "('a, unit) operation" and s0
    by (intro call_error k shape_error_outside assms)
  then show ?thesis by (simp add: send_close_def Let_def)
qed

lemma send_error:
  assumes "shape_error e"
  shows "fst (send cd m s) \<noteq> Some e"
proof (cases "map_of m ''type''")
  case None
  from assms have "e \<noteq> Key_error ''type''" by (auto simp: shape_error_def)
  with None show ?thesis by (simp add: send_def)
next
  case (Some t)
  from assms have ne: "Expected_accept_or_close v \<noteq> e" "Expected_send_or_close v \<noteq> e"
    "Unexpected_after_close v \<noteq> e" for v
    by (auto simp: shape_error_def)
  from Some show ?thesis
    by (simp add: send_def ne send_accept_error [OF assms] send_reject_error [OF assms]
        send_data_error [OF assms] send_close_error [OF assms])
qed

text \<open>
  C8. No call of \<^verbatim>\<open>send\<close>, in any state and with any message, raises the
  NotImplementedError for fragmented messages or the TypeError "Websocket data must be
  bytes, str.": the tests before them look at the message, which is a mapping, and not
  at the payload. On an open connection a \<^verbatim>\<open>websocket.send\<close> whose payload is neither
  a string nor bytes-like (\<^verbatim>\<open>None\<close>, a dict, a list, a number) raises the TypeError
  "data is a dict-like object" and changes nothing.
\<close>

theorem send_shape_checks:
  "fst (send cd message s) \<noteq> Some Fragmented_not_supported
   \<and> fst (send cd message s) \<noteq> Some Data_must_be_bytes_str
   \<and> (handshake_complete s \<and> \<not> close_sent s
        \<and> map_of message ''type'' = Some (PStr ''websocket.send'')
        \<and> \<not> isinstance_str (payload_of message) \<and> \<not> isinstance_bytes_like (payload_of message)
      \<longrightarrow> send cd message s = (Some Data_is_dict_like, s))"
proof -
  have "fst (send cd message s) \<noteq> Some Fragmented_not_supported"
    by (rule send_error) (simp add: shape_error_def)
  moreover have "fst (send cd message s) \<noteq> Some Data_must_be_bytes_str"
    by (rule send_error) (simp add: shape_error_def)
  moreover have "send cd message s = (Some Data_is_dict_like, s)"
    if "handshake_complete s" "\<not> close_sent s"
      "map_of message ''type'' = Some (PStr ''websocket.send'')"
      "\<not> isinstance_str (payload_of message)" "\<not> isinstance_bytes_like (payload_of message)"
    using that by (simp add: send_def send_data_def payload_of_def Let_def)
  ultimately show ?thesis by blast
qed

theorem send_shape_checks_witness:
  "send sim_codec [(''type'', PStr ''websocket.send''), (''text'', PList [PStr ''a'', PStr ''b''])] opened
     = (Some Data_is_dict_like, opened)
   \<and> send sim_codec [(''type'', PStr ''websocket.send''), (''bytes'', PDict [(''a'', PInt 1)])] opened
     = (Some Data_is_dict_like, opened)"
  using send_shape_checks [of sim_codec "[(''type'', PStr ''websocket.send''), (''text'', PList [PStr ''a'', PStr ''b''])]" opened]
    send_shape_checks [of sim_codec "[(''type'', PStr ''websocket.send''), (''bytes'', PDict [(''a'', PInt 1)])]" opened]
  by (simp add: payload_of_def get_def state_defs)

section \<open>The run of the small codec's connection\<close>

lemma upgraded_eval:
  "upgraded = fresh\<lparr>conn := \<lparr>sim_state = OPEN, sim_out = [[101]], sim_events = []\<rparr>,
                  connect_event := Some \<lparr>path = ''/'', headers = []\<rparr>,
                  scope := Some [(''type'', PStr ''websocket''), (''path'', PStr ''/'')],
                  queue := [[(''type'', PStr ''websocket.connect'')]],
                  created := 1, tasks := {0}\<rparr>"
  by (simp add: upgraded_def data_received_def handle_events_def handle_event_def
      handle_connect_def spawn_def Let_def sim_defs state_defs op_defs)

lemma accepted_eval:
  "accepted = upgraded\<lparr>conn := \<lparr>sim_state = OPEN, sim_out = [], sim_events = []\<rparr>,
                       handshake_complete := True,
                       transport := \<lparr>calls = [Write [101]], closing = False\<rparr>\<rparr>"
  by (simp add: accepted_def upgraded_eval)
     (simp add: send_def send_accept_def sim_defs state_defs op_defs)

lemma closed_by_peer_eval:
  "closed_by_peer = accepted\<lparr>conn := \<lparr>sim_state = CLOSING, sim_out = [], sim_events = []\<rparr>,
      transport := \<lparr>calls = [Write [101], Write [8], Close], closing = True\<rparr>,
      queue := [[(''type'', PStr ''websocket.connect'')],
                [(''type'', PStr ''websocket.disconnect''), (''code'', PInt 1005)]]\<rparr>"
  by (simp add: closed_by_peer_def accepted_eval upgraded_eval)
     (simp add: data_received_def handle_events_def handle_event_def handle_close_def
        attr_CLOSING_def State_truthy_def sim_defs state_defs op_defs)

lemma accepted_reachable: "reachable sim_scope sim_codec accepted"
  unfolding accepted_def upgraded_def fresh_def
  by (intro reachable.data reachable.sent reachable.made)

lemma closed_by_peer_reachable: "reachable sim_scope sim_codec closed_by_peer"
  unfolding closed_by_peer_def accepted_def upgraded_def fresh_def
  by (intro reachable.data reachable.sent reachable.made)

section \<open>send while the transport is closing\<close>

text \<open>
  Against C9 as it is written: after the upgrade, the application's accept and the
  peer's close frame, the handshake is complete, close has not been sent and the
  transport is closing; the codec has left the open state, and a \<^verbatim>\<open>websocket.send\<close>
  with a text or a bytes payload leaves \<^verbatim>\<open>send\<close> with the codec's exception. The
  message is not dropped silently.
\<close>

theorem send_when_transport_closing_counterexample:
  "reachable sim_scope sim_codec closed_by_peer
   \<and> handshake_complete closed_by_peer \<and> \<not> close_sent closed_by_peer
   \<and> transport_is_closing (transport closed_by_peer)
   \<and> fst (send sim_codec [(''type'', PStr ''websocket.send''), (''text'', PStr ''hi'')] closed_by_peer)
       = Some (Raised_outside ''InvalidState'')
   \<and> fst (send sim_codec [(''type'', PStr ''websocket.send''), (''bytes'', PBytes [7])] closed_by_peer)
       = Some (Raised_outside ''InvalidState'')"
proof -
  have "handshake_complete closed_by_peer \<and> \<not> close_sent closed_by_peer
      \<and> transport_is_closing (transport closed_by_peer)"
    by (simp add: closed_by_peer_eval accepted_eval upgraded_eval state_defs transport_is_closing_def)
  moreover have "fst (send sim_codec [(''type'', PStr ''websocket.send''), (''text'', PStr ''hi'')] closed_by_peer)
       = Some (Raised_outside ''InvalidState'')"
    by (simp add: closed_by_peer_eval accepted_eval upgraded_eval)
       (simp add: send_def send_data_def sim_defs state_defs op_defs)
  moreover have "fst (send sim_codec [(''type'', PStr ''websocket.send''), (''bytes'', PBytes [7])] closed_by_peer)
       = Some (Raised_outside ''InvalidState'')"
    by (simp add: closed_by_peer_eval accepted_eval upgraded_eval)
       (simp add: send_def send_data_def sim_defs state_defs op_defs)
  ultimately show ?thesis using closed_by_peer_reachable by simp
qed

text \<open>
  C9, amended. On an open connection (handshake complete, close not sent) whose
  transport reports that it is closing, \<^verbatim>\<open>send\<close> asks nothing of the transport. A
  \<^verbatim>\<open>websocket.send\<close> with a text payload is encoded and handed to the codec's
  \<^verbatim>\<open>send_text\<close>, one with a bytes-like payload to \<^verbatim>\<open>send_binary\<close>; nothing else of
  the connection changes, and the call returns normally exactly when the codec's call
  does: an exception of the codec leaves \<^verbatim>\<open>send\<close>. A \<^verbatim>\<open>websocket.close\<close> sets
  \<open>close_sent\<close>, queues the disconnect event with the message's code (1000 when it has
  none) and hands code and reason to the codec's \<^verbatim>\<open>send_close\<close>; it writes nothing
  and does not close the transport, and again only the codec's exception can leave it.
\<close>

theorem send_when_transport_closing:
  assumes "handshake_complete s" and "\<not> close_sent s"
    and "transport_is_closing (transport s)"
  shows "(map_of message ''type'' = Some (PStr ''websocket.send'')
            \<and> get message ''bytes'' = PNone \<and> get message ''text'' = PStr txt
          \<longrightarrow> send cd message s =
                (case fst (conn_send_text cd (encode_utf8 txt) (conn s)) of
                   Inl x \<Rightarrow> Some (Raised_outside x) | Inr u \<Rightarrow> None,
                 s\<lparr>conn := snd (conn_send_text cd (encode_utf8 txt) (conn s))\<rparr>))
       \<and> (map_of message ''type'' = Some (PStr ''websocket.send'')
            \<and> get message ''bytes'' = b \<and> isinstance_bytes_like b
          \<longrightarrow> send cd message s =
                (case fst (conn_send_binary cd (octets_of b) (conn s)) of
                   Inl x \<Rightarrow> Some (Raised_outside x) | Inr u \<Rightarrow> None,
                 s\<lparr>conn := snd (conn_send_binary cd (octets_of b) (conn s))\<rparr>))
       \<and> (map_of message ''type'' = Some (PStr ''websocket.close'')
            \<and> code = (case map_of message ''code'' of None \<Rightarrow> PInt 1000 | Some v \<Rightarrow> v)
            \<and> rsn = (case map_of message ''reason'' of None \<Rightarrow> PStr [] | Some v \<Rightarrow> if truthy v then v else PStr [])
          \<longrightarrow> send cd message s =
                (case fst (conn_send_close cd code (Some rsn) (conn s)) of
                   Inl x \<Rightarrow> Some (Raised_outside x) | Inr u \<Rightarrow> None,
                 s\<lparr>close_sent := True,
                   queue := queue s @ [[(''type'', PStr ''websocket.disconnect''), (''code'', code)]],
                   conn := snd (conn_send_close cd code (Some rsn) (conn s))\<rparr>))"
proof (intro conjI impI)
  assume a: "map_of message ''type'' = Some (PStr ''websocket.send'')
            \<and> get message ''bytes'' = PNone \<and> get message ''text'' = PStr txt"
  obtain r c where f: "conn_send_text cd (encode_utf8 txt) (conn s) = (r, c)"
    by (cases "conn_send_text cd (encode_utf8 txt) (conn s)")
  from a assms f show "send cd message s =
                (case fst (conn_send_text cd (encode_utf8 txt) (conn s)) of
                   Inl x \<Rightarrow> Some (Raised_outside x) | Inr u \<Rightarrow> None,
                 s\<lparr>conn := snd (conn_send_text cd (encode_utf8 txt) (conn s))\<rparr>)"
    by (cases r) (simp_all add: send_def send_data_def call_def)
next
  assume a: "map_of message ''type'' = Some (PStr ''websocket.send'')
            \<and> get message ''bytes'' = b \<and> isinstance_bytes_like b"
  then have nb: "b \<noteq> PNone" "\<not> isinstance_str b" by (cases b; simp)+
  obtain r c where f: "conn_send_binary cd (octets_of b) (conn s) = (r, c)"
    by (cases "conn_send_binary cd (octets_of b) (conn s)")
  from a nb assms f show "send cd message s =
                (case fst (conn_send_binary cd (octets_of b) (conn s)) of
                   Inl x \<Rightarrow> Some (Raised_outside x) | Inr u \<Rightarrow> None,
                 s\<lparr>conn := snd (conn_send_binary cd (octets_of b) (conn s))\<rparr>)"
    by (cases r) (simp_all add: send_def send_data_def call_def)
next
  assume a: "map_of message ''type'' = Some (PStr ''websocket.close'')
            \<and> code = (case map_of message ''code'' of None \<Rightarrow> PInt 1000 | Some v \<Rightarrow> v)
            \<and> rsn = (case map_of message ''reason'' of None \<Rightarrow> PStr [] | Some v \<Rightarrow> if truthy v then v else PStr [])"
  then have c: "get_default message ''code'' (PInt 1000) = code"
    by (simp add: get_default_def)
  from a have r: "(if truthy (get_default message ''reason'' (PStr []))
                   then get_default message ''reason'' (PStr []) else PStr []) = rsn"
    by (simp add: get_default_def split: option.splits)
  obtain r' c' where f: "conn_send_close cd code (Some rsn) (conn s) = (r', c')"
    by (cases "conn_send_close cd code (Some rsn) (conn s)")
  from a assms have "send cd message s = send_close cd message s" by (simp add: send_def)
  also from f assms(3) have "send_close cd message s =
                (case fst (conn_send_close cd code (Some rsn) (conn s)) of
                   Inl x \<Rightarrow> Some (Raised_outside x) | Inr u \<Rightarrow> None,
                 s\<lparr>close_sent := True,
                   queue := queue s @ [[(''type'', PStr ''websocket.disconnect''), (''code'', code)]],
                   conn := snd (conn_send_close cd code (Some rsn) (conn s))\<rparr>)"
    by (cases r') (simp_all add: send_close_def c r call_def put_nowait_def disconnect_with_def Let_def)
  finally show "send cd message s =
                (case fst (conn_send_close cd code (Some rsn) (conn s)) of
                   Inl x \<Rightarrow> Some (Raised_outside x) | Inr u \<Rightarrow> None,
                 s\<lparr>close_sent := True,
                   queue := queue s @ [[(''type'', PStr ''websocket.disconnect''), (''code'', code)]],
                   conn := snd (conn_send_close cd code (Some rsn) (conn s))\<rparr>)" .
qed

theorem send_when_transport_closing_witness:
  "send sim_codec [(''type'', PStr ''websocket.send''), (''text'', PStr ''hi'')] closing_down
     = (None, closing_down\<lparr>conn := \<lparr>sim_state = OPEN, sim_out = [[1, 104, 105]], sim_events = []\<rparr>\<rparr>)
   \<and> send sim_codec [(''type'', PStr ''websocket.send''), (''bytes'', PBytes [7])] closing_down
     = (None, closing_down\<lparr>conn := \<lparr>sim_state = OPEN, sim_out = [[2, 7]], sim_events = []\<rparr>\<rparr>)
   \<and> send sim_codec [(''type'', PStr ''websocket.close''), (''code'', PInt 4000)] closing_down
     = (None, closing_down\<lparr>close_sent := True,
           queue := [[(''type'', PStr ''websocket.disconnect''), (''code'', PInt 4000)]],
           conn := \<lparr>sim_state = CLOSING, sim_out = [[8]], sim_events = []\<rparr>\<rparr>)"
proof -
  have h: "handshake_complete closing_down" "\<not> close_sent closing_down"
    "transport_is_closing (transport closing_down)"
    by (simp_all add: closing_down_def state_defs transport_is_closing_def)
  have t: "conn_send_text sim_codec (encode_utf8 ''hi'') (conn closing_down)
      = (Inr (), \<lparr>sim_state = OPEN, sim_out = [[1, 104, 105]], sim_events = []\<rparr>)"
    by (simp add: closing_down_def state_defs sim_defs encode_utf8_def encode_char_def)
  have b: "conn_send_binary sim_codec [7] (conn closing_down)
      = (Inr (), \<lparr>sim_state = OPEN, sim_out = [[2, 7]], sim_events = []\<rparr>)"
    by (simp add: closing_down_def state_defs sim_defs)
  have c: "conn_send_close sim_codec (PInt 4000) (Some (PStr [])) (conn closing_down)
      = (Inr (), \<lparr>sim_state = CLOSING, sim_out = [[8]], sim_events = []\<rparr>)"
    by (simp add: closing_down_def state_defs sim_defs)
  have q: "queue closing_down = []" by (simp add: closing_down_def state_defs)
  note w = send_when_transport_closing [OF h]
  from w [of "[(''type'', PStr ''websocket.send''), (''text'', PStr ''hi'')]" "''hi''" sim_codec
             "PNone" "PNone" "PNone", THEN conjunct1]
  have 1: "send sim_codec [(''type'', PStr ''websocket.send''), (''text'', PStr ''hi'')] closing_down
     = (None, closing_down\<lparr>conn := \<lparr>sim_state = OPEN, sim_out = [[1, 104, 105]], sim_events = []\<rparr>\<rparr>)"
    by (simp add: get_def t)
  from w [of "[(''type'', PStr ''websocket.send''), (''bytes'', PBytes [7])]" "''x''" sim_codec
             "PBytes [7]" "PNone" "PNone", THEN conjunct2, THEN conjunct1]
  have 2: "send sim_codec [(''type'', PStr ''websocket.send''), (''bytes'', PBytes [7])] closing_down
     = (None, closing_down\<lparr>conn := \<lparr>sim_state = OPEN, sim_out = [[2, 7]], sim_events = []\<rparr>\<rparr>)"
    by (simp add: get_def b)
  from w [of "[(''type'', PStr ''websocket.close''), (''code'', PInt 4000)]" "''x''" sim_codec
             "PNone" "PInt 4000" "PStr []", THEN conjunct2, THEN conjunct2]
  have 3: "send sim_codec [(''type'', PStr ''websocket.close''), (''code'', PInt 4000)] closing_down
     = (None, closing_down\<lparr>close_sent := True,
           queue := [[(''type'', PStr ''websocket.disconnect''), (''code'', PInt 4000)]],
           conn := \<lparr>sim_state = CLOSING, sim_out = [[8]], sim_events = []\<rparr>\<rparr>)"
    by (simp add: c q)
  from 1 2 3 show ?thesis by simp
qed

section \<open>handle_close\<close>

text \<open>
  C10. Whatever the state of the connection and of the codec, \<^verbatim>\<open>handle_close\<close> takes
  the codec's pending output and writes each piece to the transport (the test
  \<^verbatim>\<open>self.conn.state.CLOSING\<close> is true in every state), then queues the event
  \<^verbatim>\<open>{"type": "websocket.disconnect", "code": 1005}\<close>, then closes the transport. The one
  thing asked of the codec is that \<^verbatim>\<open>data_to_send\<close> returns.
\<close>

theorem handle_close_in_every_state:
  assumes "conn_data_to_send cd (conn s) = (Inr out, c)"
  shows "handle_close cd ev s =
           (None, s\<lparr>conn := c,
                    transport := \<lparr>calls = calls (transport s) @ map Write out @ [Close],
                                  closing = True\<rparr>,
                    queue := queue s @ [[(''type'', PStr ''websocket.disconnect''),
                                         (''code'', PInt 1005)]]\<rparr>)"
  using assms
  by (simp add: handle_close_def then_do_def flush_each_def call_def put_nowait_def
      disconnect_with_def attr_CLOSING_def State_truthy_def transport_close_def write_each_calls)

theorem handle_close_in_every_state_witness:
  "handle_close sim_codec (sim_frame OP_CLOSE []) closing_shake =
     (None, closing_shake\<lparr>conn := \<lparr>sim_state = CLOSING, sim_out = [], sim_events = []\<rparr>,
              transport := \<lparr>calls = [Write [8, 3, 232], Close], closing = True\<rparr>,
              queue := [[(''type'', PStr ''websocket.disconnect''), (''code'', PInt 1005)]]\<rparr>)
   \<and> handle_close sim_codec (sim_frame OP_CLOSE []) still_connecting =
     (None, still_connecting\<lparr>conn := \<lparr>sim_state = CONNECTING, sim_out = [], sim_events = []\<rparr>,
              transport := \<lparr>calls = [Write [101], Close], closing = True\<rparr>,
              queue := [[(''type'', PStr ''websocket.disconnect''), (''code'', PInt 1005)]]\<rparr>)"
proof -
  have a: "conn_data_to_send sim_codec (conn closing_shake)
      = (Inr [[8, 3, 232]], \<lparr>sim_state = CLOSING, sim_out = [], sim_events = []\<rparr>)"
    by (simp add: closing_shake_def state_defs sim_defs)
  have b: "conn_data_to_send sim_codec (conn still_connecting)
      = (Inr [[101]], \<lparr>sim_state = CONNECTING, sim_out = [], sim_events = []\<rparr>)"
    by (simp add: still_connecting_def state_defs sim_defs)
  have q: "queue closing_shake = []" "calls (transport closing_shake) = []"
    "queue still_connecting = []" "calls (transport still_connecting) = []"
    by (simp_all add: closing_shake_def still_connecting_def state_defs)
  from handle_close_in_every_state [OF a, of "sim_frame OP_CLOSE []"]
  have 1: "handle_close sim_codec (sim_frame OP_CLOSE []) closing_shake =
     (None, closing_shake\<lparr>conn := \<lparr>sim_state = CLOSING, sim_out = [], sim_events = []\<rparr>,
              transport := \<lparr>calls = [Write [8, 3, 232], Close], closing = True\<rparr>,
              queue := [[(''type'', PStr ''websocket.disconnect''), (''code'', PInt 1005)]]\<rparr>)"
    by (simp add: q)
  from handle_close_in_every_state [OF b, of "sim_frame OP_CLOSE []"]
  have 2: "handle_close sim_codec (sim_frame OP_CLOSE []) still_connecting =
     (None, still_connecting\<lparr>conn := \<lparr>sim_state = CONNECTING, sim_out = [], sim_events = []\<rparr>,
              transport := \<lparr>calls = [Write [101], Close], closing = True\<rparr>,
              queue := [[(''type'', PStr ''websocket.disconnect''), (''code'', PInt 1005)]]\<rparr>)"
    by (simp add: q)
  from 1 2 show ?thesis by (rule conjI)
qed

section \<open>Forced shutdown, twice\<close>

lemma flush_and_close_keeps:
  "queue (snd (flush_and_close cd s)) = queue s \<and> transport (snd (flush_and_close cd s)) = transport s
   \<and> conn (snd (flush_and_close cd s)) = snd (conn_data_to_send cd (conn s))"
proof (cases "conn_data_to_send cd (conn s)")
  case (Pair r c)
  then show ?thesis
    by (cases r) (simp_all add: flush_and_close_def call_def transport_write_list_def)
qed

lemma shutdown_keeps:
  "queue (snd (shutdown cd s)) = queue s @ [[(''type'', PStr ''websocket.disconnect''), (''code'', PInt 1012)]]
   \<and> transport (snd (shutdown cd s)) = transport s
   \<and> conn (snd (shutdown cd s)) =
       (case conn_send_close cd (PInt 1012) None (conn s) of
          (Inl x, c) \<Rightarrow> c
        | (Inr u, c) \<Rightarrow> snd (conn_data_to_send cd c))"
proof (cases "conn_send_close cd (PInt 1012) None (conn s)")
  case (Pair r c)
  show ?thesis
  proof (cases r)
    case (Inl x)
    with Pair show ?thesis
      by (simp add: shutdown_def call_def put_nowait_def disconnect_with_def)
  next
    case (Inr u)
    let ?s = "s\<lparr>queue := queue s @ [disconnect_with (PInt 1012)], conn := c\<rparr>"
    from Pair Inr have "shutdown cd s = flush_and_close cd ?s"
      by (simp add: shutdown_def call_def put_nowait_def)
    with flush_and_close_keeps [of cd ?s] Pair Inr show ?thesis
      by (simp add: disconnect_with_def)
  qed
qed

lemma shutdown_accepted_eval:
  "shutdown sim_codec accepted =
     (Some Write_argument_not_bytes,
      accepted\<lparr>queue := [[(''type'', PStr ''websocket.connect'')],
                          [(''type'', PStr ''websocket.disconnect''), (''code'', PInt 1012)]],
               conn := \<lparr>sim_state = CLOSING, sim_out = [], sim_events = []\<rparr>\<rparr>)"
  by (simp add: accepted_eval upgraded_eval)
     (simp add: shutdown_def sim_defs state_defs op_defs)

text \<open>
  Against C2 as it is written: on the accepted connection of the small codec a second
  \<^verbatim>\<open>shutdown\<close> queues a second disconnect event, so the queue after two calls is not
  the queue after one.
\<close>

theorem shutdown_twice_counterexample:
  "reachable sim_scope sim_codec accepted
   \<and> queue (snd (shutdown sim_codec accepted))
       = [[(''type'', PStr ''websocket.connect'')],
          [(''type'', PStr ''websocket.disconnect''), (''code'', PInt 1012)]]
   \<and> queue (snd (shutdown sim_codec (snd (shutdown sim_codec accepted))))
       = [[(''type'', PStr ''websocket.connect'')],
          [(''type'', PStr ''websocket.disconnect''), (''code'', PInt 1012)],
          [(''type'', PStr ''websocket.disconnect''), (''code'', PInt 1012)]]
   \<and> queue (snd (shutdown sim_codec (snd (shutdown sim_codec accepted))))
       \<noteq> queue (snd (shutdown sim_codec accepted))"
proof -
  have 1: "queue (snd (shutdown sim_codec accepted))
       = [[(''type'', PStr ''websocket.connect'')],
          [(''type'', PStr ''websocket.disconnect''), (''code'', PInt 1012)]]"
    by (simp add: shutdown_accepted_eval)
  have 2: "queue (snd (shutdown sim_codec (snd (shutdown sim_codec accepted))))
       = [[(''type'', PStr ''websocket.connect'')],
          [(''type'', PStr ''websocket.disconnect''), (''code'', PInt 1012)],
          [(''type'', PStr ''websocket.disconnect''), (''code'', PInt 1012)]]"
    by (simp add: shutdown_accepted_eval)
       (simp add: shutdown_def accepted_eval upgraded_eval sim_defs state_defs op_defs)
  from 1 2 accepted_reachable show ?thesis by simp
qed

text \<open>
  C2, amended. Calling \<^verbatim>\<open>shutdown\<close> twice does not close the transport twice, and
  leaves the transport as a single call leaves it. The queue is another matter: every
  call first queues the event \<^verbatim>\<open>{"type": "websocket.disconnect", "code": 1012}\<close>, so
  two calls queue two, whatever the state and whatever the codec does. Each call asks
  the codec for a close frame with code 1012 and, when that returns, takes its pending
  output.
\<close>

theorem shutdown_every_time:
  "queue (snd (shutdown cd s))
     = queue s @ [[(''type'', PStr ''websocket.disconnect''), (''code'', PInt 1012)]]
   \<and> queue (snd (shutdown cd (snd (shutdown cd s))))
     = queue s @ [[(''type'', PStr ''websocket.disconnect''), (''code'', PInt 1012)],
                  [(''type'', PStr ''websocket.disconnect''), (''code'', PInt 1012)]]
   \<and> transport (snd (shutdown cd (snd (shutdown cd s)))) = transport (snd (shutdown cd s))
   \<and> closes (transport (snd (shutdown cd (snd (shutdown cd s))))) < closes (transport s) + 2
   \<and> conn (snd (shutdown cd s)) =
       (case conn_send_close cd (PInt 1012) None (conn s) of
          (Inl x, c) \<Rightarrow> c
        | (Inr u, c) \<Rightarrow> snd (conn_data_to_send cd c))"
  using shutdown_keeps [of cd s] shutdown_keeps [of cd "snd (shutdown cd s)"]
  by simp

section \<open>Binary frames\<close>

lemma handle_each_ignored:
  assumes "\<forall>ev \<in> set evs. \<exists>f. ev = Frame f \<and> (opcode f = OP_BINARY \<or> opcode f = OP_CONT)"
  shows "handle_each build_scope cd evs s = (None, s)"
  using assms
proof (induction evs)
  case Nil
  show ?case by simp
next
  case (Cons ev evs)
  from Cons.prems obtain f where "ev = Frame f" "opcode f = OP_BINARY \<or> opcode f = OP_CONT"
    by auto
  then have "handle_event build_scope cd ev s = (None, s)"
    by (auto simp: handle_event_def)
  with Cons show ?case by simp
qed

text \<open>
  C3, on the code. When the codec takes the data and hands over binary frames, first
  ones or continuations, however many, \<^verbatim>\<open>data_received\<close> returns with nothing changed
  but the codec's state: the loop of \<^verbatim>\<open>handle_events\<close> has no branch for them,
  \<^verbatim>\<open>handle_bytes\<close> is not called, nothing is gathered and no \<^verbatim>\<open>websocket.receive\<close>
  event is queued, finished message or not.
\<close>

theorem binary_frames_dropped:
  assumes "conn_receive_data cd d (conn s) = (Inr (), c1)"
    and "conn_events_received cd c1 = (Inr evs, c2)"
    and "\<forall>ev \<in> set evs. \<exists>f. ev = Frame f \<and> (opcode f = OP_BINARY \<or> opcode f = OP_CONT)"
  shows "data_received build_scope cd d s = (None, s\<lparr>conn := c2\<rparr>)"
  using assms(1,2) handle_each_ignored [OF assms(3)]
  by (simp add: data_received_def handle_events_def call_def)

theorem binary_frames_dropped_witness:
  "data_received sim_scope sim_codec [2, 1, 2] accepted
     = (None, accepted\<lparr>conn := \<lparr>sim_state = OPEN, sim_out = [], sim_events = []\<rparr>\<rparr>)
   \<and> queue accepted = [[(''type'', PStr ''websocket.connect'')]]"
proof -
  let ?ev = "Frame (sim_frame OP_BINARY [1, 2])"
  have a: "conn_receive_data sim_codec [2, 1, 2] (conn accepted)
      = (Inr (), \<lparr>sim_state = OPEN, sim_out = [], sim_events = [?ev]\<rparr>)"
    by (simp add: accepted_eval upgraded_eval) (simp add: sim_defs state_defs)
  have b: "conn_events_received sim_codec \<lparr>sim_state = OPEN, sim_out = [], sim_events = [?ev]\<rparr>
      = (Inr [?ev], \<lparr>sim_state = OPEN, sim_out = [], sim_events = []\<rparr>)"
    by (simp add: sim_defs)
  have c: "\<forall>ev \<in> set [?ev]. \<exists>f. ev = Frame f \<and> (opcode f = OP_BINARY \<or> opcode f = OP_CONT)"
    by (simp add: sim_frame_def)
  have q: "queue accepted = [[(''type'', PStr ''websocket.connect'')]]"
    by (simp add: accepted_eval upgraded_eval state_defs)
  from binary_frames_dropped [OF a b c, of sim_scope] q show ?thesis by simp
qed

section \<open>A ping frame\<close>

text \<open>
  C4, on the code. When the codec takes the data and hands over one ping frame,
  \<^verbatim>\<open>data_received\<close> returns with nothing changed but the codec's state: the loop of
  \<^verbatim>\<open>handle_events\<close> has no branch for a ping, \<^verbatim>\<open>handle_ping\<close> is not called, and
  nothing is written to the transport. The queue is unchanged as well.
\<close>

theorem ping_not_answered:
  assumes "conn_receive_data cd d (conn s) = (Inr (), c1)"
    and "conn_events_received cd c1 = (Inr [Frame f], c2)"
    and "opcode f = OP_PING"
  shows "data_received build_scope cd d s = (None, s\<lparr>conn := c2\<rparr>)"
  using assms by (simp add: data_received_def handle_events_def handle_event_def call_def)

theorem ping_not_answered_witness:
  "data_received sim_scope sim_codec [9, 5] opened
     = (None, opened\<lparr>conn := \<lparr>sim_state = OPEN, sim_out = [[10, 5]], sim_events = []\<rparr>\<rparr>)
   \<and> calls (transport opened) = []"
proof -
  have a: "conn_receive_data sim_codec [9, 5] (conn opened)
      = (Inr (), \<lparr>sim_state = OPEN, sim_out = [[10, 5]], sim_events = [Frame (sim_frame OP_PING [5])]\<rparr>)"
    by (simp add: sim_defs state_defs)
  have b: "conn_events_received sim_codec
        \<lparr>sim_state = OPEN, sim_out = [[10, 5]], sim_events = [Frame (sim_frame OP_PING [5])]\<rparr>
      = (Inr [Frame (sim_frame OP_PING [5])], \<lparr>sim_state = OPEN, sim_out = [[10, 5]], sim_events = []\<rparr>)"
    by (simp add: sim_defs)
  have c: "opcode (sim_frame OP_PING [5]) = OP_PING" by (simp add: sim_frame_def)
  have d: "calls (transport opened) = []" by (simp add: state_defs)
  from ping_not_answered [OF a b c, of sim_scope] d show ?thesis by simp
qed

section \<open>A request that is not a valid upgrade\<close>

lemma closes_write_each: "closes (transport_write_each out t) = closes t"
  by (simp add: closes_def write_each_calls)

lemma flush_each_closes: "closes (transport (snd (flush_each cd s))) = closes (transport s)"
  unfolding flush_each_def
  by (rule call_keeps [where g = "\<lambda>s. closes (transport s)"]) (simp_all add: closes_write_each)

lemma handle_connect_transport: "transport (snd (handle_connect bs cd r s)) = transport s"
proof (cases "bs r")
  case (Inl x)
  then show ?thesis by (simp add: handle_connect_def)
next
  case (Inr sc)
  have "transport (snd (call (conn_accept cd r)
          (\<lambda>response. call (conn_send_response cd response)
             (\<lambda>u s3. (None, spawn (put_nowait [(''type'', PStr ''websocket.connect'')] s3))))
          s0)) = transport s0" for s0
    by (intro call_keeps [where g = transport]) (simp_all add: spawn_def put_nowait_def)
  with Inr show ?thesis by (simp add: handle_connect_def)
qed

lemma handle_text_closes: "closes (transport (snd (handle_text cd f s))) = closes (transport s)"
  by (simp add: handle_text_def flush_each_closes) (simp add: put_nowait_def)

lemma handle_event_closes:
  assumes "\<And>f. ev = Frame f \<Longrightarrow> opcode f \<noteq> OP_CLOSE"
  shows "closes (transport (snd (handle_event bs cd ev s))) = closes (transport s)"
proof (cases ev)
  case (Request r)
  then show ?thesis by (simp add: handle_event_def handle_connect_transport)
next
  case (Frame f)
  with assms have "opcode f \<noteq> OP_CLOSE" by simp
  with Frame show ?thesis by (simp add: handle_event_def handle_text_closes)
qed

lemma handle_each_closes:
  assumes "\<forall>f. Frame f \<in> set evs \<longrightarrow> opcode f \<noteq> OP_CLOSE"
  shows "closes (transport (snd (handle_each bs cd evs s))) = closes (transport s)"
  using assms
proof (induction evs arbitrary: s)
  case Nil
  show ?case by simp
next
  case (Cons ev evs)
  obtain e s' where r: "handle_event bs cd ev s = (e, s')" by (cases "handle_event bs cd ev s")
  have evok: "opcode f \<noteq> OP_CLOSE" if "ev = Frame f" for f
    using Cons.prems that by simp
  from handle_event_closes [of ev bs cd s, OF evok] r
  have s': "closes (transport s') = closes (transport s)" by simp
  from Cons.prems have "\<forall>f. Frame f \<in> set evs \<longrightarrow> opcode f \<noteq> OP_CLOSE" by simp
  from Cons.IH [OF this, of s'] r s' show ?case by (cases e) simp_all
qed

text \<open>
  C5, on the code. \<^verbatim>\<open>handle_events\<close> never calls \<^verbatim>\<open>handle_no_connect\<close>. Whatever the
  codec makes of the data, as long as it hands over no close frame the transport is not
  asked to close; and a request event, which is all the codec can report of an HTTP
  request, goes to \<^verbatim>\<open>handle_connect\<close>: when the codec's \<^verbatim>\<open>accept\<close> and
  \<^verbatim>\<open>send_response\<close> return, the connect event is queued and the application's task is
  created and registered, and the transport is left as it was.
\<close>

theorem upgrade_request_never_refused:
  assumes "conn_receive_data cd d (conn s) = (Inr (), c1)"
    and "conn_events_received cd c1 = (Inr evs, c2)"
    and "\<forall>f. Frame f \<in> set evs \<longrightarrow> opcode f \<noteq> OP_CLOSE"
  shows "closes (transport (snd (data_received build_scope cd d s))) = closes (transport s)
       \<and> (evs = [Request r] \<and> build_scope r = Inr sc
            \<and> conn_accept cd r c2 = (Inr resp, c3)
            \<and> conn_send_response cd resp c3 = (Inr (), c4)
          \<longrightarrow> data_received build_scope cd d s =
                (None, s\<lparr>conn := c4, connect_event := Some r, scope := Some sc,
                         queue := queue s @ [[(''type'', PStr ''websocket.connect'')]],
                         created := Suc (created s),
                         tasks := insert (created s) (tasks s)\<rparr>))"
proof -
  from assms(1,2)
  have dr: "data_received build_scope cd d s = handle_each build_scope cd evs (s\<lparr>conn := c2\<rparr>)"
    by (simp add: data_received_def handle_events_def call_def)
  from handle_each_closes [OF assms(3), of build_scope cd "s\<lparr>conn := c2\<rparr>"]
  have 1: "closes (transport (snd (data_received build_scope cd d s))) = closes (transport s)"
    by (simp add: dr)
  have 2: "data_received build_scope cd d s =
                (None, s\<lparr>conn := c4, connect_event := Some r, scope := Some sc,
                         queue := queue s @ [[(''type'', PStr ''websocket.connect'')]],
                         created := Suc (created s),
                         tasks := insert (created s) (tasks s)\<rparr>)"
    if "evs = [Request r]" "build_scope r = Inr sc" "conn_accept cd r c2 = (Inr resp, c3)"
      "conn_send_response cd resp c3 = (Inr (), c4)"
    using that
    by (simp add: dr handle_event_def handle_connect_def call_def spawn_def put_nowait_def)
  from 1 2 show ?thesis by blast
qed

theorem upgrade_request_never_refused_witness:
  "data_received sim_scope sim_codec [71, 69, 84] fresh =
     (None, fresh\<lparr>conn := \<lparr>sim_state = OPEN, sim_out = [[101]], sim_events = []\<rparr>,
                  connect_event := Some \<lparr>path = ''/'', headers = []\<rparr>,
                  scope := Some [(''type'', PStr ''websocket''), (''path'', PStr ''/'')],
                  queue := [[(''type'', PStr ''websocket.connect'')]],
                  created := 1, tasks := {0}\<rparr>)
   \<and> closes (transport (snd (data_received sim_scope sim_codec [71, 69, 84] fresh))) = 0"
proof -
  let ?r = "\<lparr>path = ''/'', headers = []\<rparr>"
  let ?c1 = "\<lparr>sim_state = CONNECTING, sim_out = [], sim_events = [Request ?r]\<rparr>"
  let ?c2 = "\<lparr>sim_state = CONNECTING, sim_out = [], sim_events = []\<rparr>"
  let ?c4 = "\<lparr>sim_state = OPEN, sim_out = [[101]], sim_events = []\<rparr>"
  have a: "conn_receive_data sim_codec [71, 69, 84] (conn fresh) = (Inr (), ?c1)"
    by (simp add: sim_defs state_defs)
  have b: "conn_events_received sim_codec ?c1 = (Inr [Request ?r], ?c2)"
    by (simp add: sim_defs)
  have c: "\<forall>f. Frame f \<in> set [Request ?r] \<longrightarrow> opcode f \<noteq> OP_CLOSE" by simp
  have d: "sim_scope ?r = Inr [(''type'', PStr ''websocket''), (''path'', PStr ''/'')]"
    "conn_accept sim_codec ?r ?c2 = (Inr \<lparr>status_code = 101, body = [101]\<rparr>, ?c2)"
    "conn_send_response sim_codec \<lparr>status_code = 101, body = [101]\<rparr> ?c2 = (Inr (), ?c4)"
    by (simp_all add: sim_defs)
  have e: "queue fresh = []" "created fresh = 0" "tasks fresh = {}" "closes (transport fresh) = 0"
    by (simp_all add: state_defs closes_def)
  note t = upgrade_request_never_refused [OF a b c, of sim_scope ?r
      "[(''type'', PStr ''websocket''), (''path'', PStr ''/'')]" "\<lparr>status_code = 101, body = [101]\<rparr>" ?c2 ?c4]
  from t [THEN conjunct2] d
  have 1: "data_received sim_scope sim_codec [71, 69, 84] fresh =
     (None, fresh\<lparr>conn := ?c4, connect_event := Some ?r,
                  scope := Some [(''type'', PStr ''websocket''), (''path'', PStr ''/'')],
                  queue := [[(''type'', PStr ''websocket.connect'')]],
                  created := 1, tasks := {0}\<rparr>)"
    by (simp add: e)
  from t [THEN conjunct1]
  have 2: "closes (transport (snd (data_received sim_scope sim_codec [71, 69, 84] fresh))) = 0"
    by (simp add: e)
  from 1 2 show ?thesis by (rule conjI)
qed

section \<open>The application fails before the handshake\<close>

text \<open>
  C7, on the code. When the application ends with an exception and the handshake was
  not completed, \<^verbatim>\<open>send_500_response\<close> prints a line on the standard output and the
  transport is closed: the one call the transport receives is \<^verbatim>\<open>close\<close>, nothing is
  written to it.
\<close>

theorem failed_application_before_handshake:
  assumes "\<not> handshake_complete s"
  shows "run_asgi App_raised s =
           s\<lparr>stdout := stdout s @ [''500 Error''], transport := transport_close (transport s)\<rparr>
       \<and> calls (transport (run_asgi App_raised s)) = calls (transport s) @ [Close]"
  using assms by (simp add: run_asgi_def send_500_response_def transport_close_def)

theorem failed_application_before_handshake_witness:
  "calls (transport (run_asgi App_raised fresh)) = [Close]
   \<and> stdout (run_asgi App_raised fresh) = [''500 Error'']"
proof -
  have a: "\<not> handshake_complete fresh" by (simp add: state_defs)
  have b: "calls (transport fresh) = []" "stdout fresh = []" by (simp_all add: state_defs)
  note t = failed_application_before_handshake [OF a]
  from t [THEN conjunct2] have 1: "calls (transport (run_asgi App_raised fresh)) = [Close]"
    by (simp add: b)
  have "stdout (run_asgi App_raised fresh) = [''500 Error'']"
    by (simp add: t [THEN conjunct1] b)
  with 1 show ?thesis by (rule conjI)
qed

end
